theory Spec2Isabelle
  imports Main
begin

section \<open>Roles and permissions (libs/data enums)\<close>

text \<open>
  The \<open>Role\<close> enum of the data library. Its members carry the string values
  \<open>owner\<close>, \<open>admin\<close> and \<open>viewer\<close>; services receive a principal whose role is a
  member of this enum.
\<close>

datatype Role = OWNER | ADMIN | VIEWER

definition role_value :: "Role \<Rightarrow> string" where
  "role_value r = (case r of OWNER \<Rightarrow> ''owner'' | ADMIN \<Rightarrow> ''admin'' | VIEWER \<Rightarrow> ''viewer'')"



datatype Permission =
    TASK_CREATE | TASK_READ | TASK_UPDATE | TASK_DELETE
  | USER_CREATE | USER_READ | USER_UPDATE | USER_DELETE
  | ORG_READ | ORG_UPDATE | ORG_MANAGE
  | AUDIT_READ

text \<open>
  \<open>ROLE_PERMISSIONS\<close> is an object literal of type \<open>Record<string, Permission[]>\<close>.
  Its own properties are the three lower-case role names.
\<close>

definition ROLE_PERMISSIONS :: "(string \<times> Permission list) list" where
  "ROLE_PERMISSIONS =
    [ (''owner'',
        [TASK_CREATE, TASK_READ, TASK_UPDATE, TASK_DELETE,
         USER_CREATE, USER_READ, USER_UPDATE, USER_DELETE,
         ORG_READ, ORG_UPDATE, ORG_MANAGE,
         AUDIT_READ]),
      (''admin'',
        [TASK_CREATE, TASK_READ, TASK_UPDATE, TASK_DELETE,
         USER_CREATE, USER_READ, USER_UPDATE,
         ORG_READ,
         AUDIT_READ]),
      (''viewer'',
        [TASK_READ, USER_READ, ORG_READ]) ]"

text \<open>
  A property read \<open>ROLE_PERMISSIONS[key]\<close> on an object literal first looks at the own
  properties and then follows the prototype chain to \<open>Object.prototype\<close>. The values
  found there are functions, except \<open>__proto__\<close>, whose getter returns
  \<open>Object.prototype\<close> itself. A key found nowhere reads as \<open>undefined\<close>.
\<close>

datatype js_value =
    JArray "Permission list"
  | JFunction string
  | JObjectPrototype
  | JUndefined

definition Object_prototype_functions :: "string list" where
  "Object_prototype_functions =
    [''constructor'', ''hasOwnProperty'', ''isPrototypeOf'', ''propertyIsEnumerable'',
     ''toLocaleString'', ''toString'', ''valueOf'',
     ''__defineGetter__'', ''__defineSetter__'', ''__lookupGetter__'', ''__lookupSetter__'']"

definition ROLE_PERMISSIONS_get :: "string \<Rightarrow> js_value" where
  "ROLE_PERMISSIONS_get key =
     (case map_of ROLE_PERMISSIONS key of
        Some ps \<Rightarrow> JArray ps
      | None \<Rightarrow>
          if key \<in> set Object_prototype_functions then JFunction key
          else if key = ''__proto__'' then JObjectPrototype
          else JUndefined)"

text \<open>
  \<open>String.prototype.toLowerCase\<close> on role names. Role strings are taken as ASCII
  text; the letters \<open>A\<close> to \<open>Z\<close> move to \<open>a\<close> to \<open>z\<close>, every other character
  stays.
\<close>

definition toLowerCase_char :: "char \<Rightarrow> char" where
  "toLowerCase_char c =
     (case map_of (zip ''ABCDEFGHIJKLMNOPQRSTUVWXYZ'' ''abcdefghijklmnopqrstuvwxyz'') c of
        Some l \<Rightarrow> l
      | None \<Rightarrow> c)"

definition toLowerCase :: "string \<Rightarrow> string" where
  "toLowerCase s = map toLowerCase_char s"

datatype error =
    TypeError string
  | NotFoundException string
  | ForbiddenException string
  | UnauthorizedException string
  | ConflictException string
  | QueryFailedError string

text \<open>
  \<open>hasPermission(role, permission)\<close>:
  \<^verbatim>\<open>const permissions = ROLE_PERMISSIONS[role.toLowerCase()];
  return permissions ? permissions.includes(permission) : false;\<close>
  An array, a function and an object are all truthy; only an array has \<open>includes\<close>, so
  the call on anything else raises a \<open>TypeError\<close>.
\<close>

definition hasPermission :: "string \<Rightarrow> Permission \<Rightarrow> error + bool" where
  "hasPermission role permission =
     (let permissions = ROLE_PERMISSIONS_get (toLowerCase role) in
      case permissions of
        JUndefined \<Rightarrow> Inr False
      | JArray ps \<Rightarrow> Inr (permission \<in> set ps)
      | _ \<Rightarrow> Inl (TypeError ''permissions.includes is not a function''))"


section \<open>Guards (libs/auth)\<close>

text \<open>
  The principal attached to a request by the JWT strategy and handed to every service
  (\<open>IUser\<close> / \<open>RequestUser\<close>): id, email, role and organization. The field
  \<open>id\<close> is \<open>principal_id\<close> here.
\<close>

record IUser =
  principal_id :: string
  email :: string
  role :: Role
  organizationId :: string






section \<open>Entities and stores\<close>

type_synonym Date = int

text \<open>
  Timestamps are milliseconds since the epoch. Nullable columns and optional fields are
  options (\<open>null\<close> and \<open>undefined\<close> both read \<open>None\<close>). Relation properties
  (\<open>parent\<close>, \<open>children\<close>, \<open>user\<close>, \<open>organization\<close>) are joins over the id columns
  and are not stored. Field names that several entities share carry the entity as a
  prefix.
\<close>

record Organization =
  org_organizationId :: string
  org_name :: string
  org_description :: "string option"
  parentId :: "string option"

record User =
  userId :: string
  user_email :: string
  password :: string
  firstName :: string
  lastName :: string
  user_role :: Role
  user_organizationId :: string
  isActive :: bool
  user_createdAt :: Date
  user_updatedAt :: Date

datatype TaskStatus = TODO | IN_PROGRESS | DONE | CANCELLED
datatype TaskPriority = LOW | MEDIUM | HIGH | URGENT
datatype TaskCategory = WORK | PERSONAL | SHOPPING | HEALTH | FINANCE | OTHER

record Task =
  taskId :: string
  title :: string
  task_description :: "string option"
  status :: TaskStatus
  priority :: TaskPriority
  category :: TaskCategory
  position :: int
  dueDate :: "Date option"
  task_userId :: string
  task_organizationId :: string
  task_createdAt :: Date
  task_updatedAt :: Date

text \<open>
  The \<open>details\<close> column holds the text \<open>JSON.stringify\<close> makes of a small object. The
  object is kept as it is built; its serialisation is not modelled.
\<close>

datatype json = JStr string | JNum int | JNull | JObj "(string \<times> json) list"

record AuditLog =
  auditLogId :: string
  action :: string
  resource :: string
  resourceId :: "string option"
  audit_userId :: "string option"
  userEmail :: "string option"
  audit_organizationId :: "string option"
  details :: "json option"
  ipAddress :: "string option"
  userAgent :: "string option"
  success :: bool
  errorMessage :: "string option"
  createdAt :: Date

text \<open>
  One line of \<open>console.log\<close> output of the audit service: the flag chooses between the
  two emoji, then action, resource and user.
\<close>

datatype ConsoleLine = AuditLine bool string string string

text \<open>
  The world the services run in: the four tables in insertion order, what the audit
  table's \<open>save\<close> does (\<open>None\<close>: it stores the row; \<open>Some e\<close>: it rejects with \<open>e\<close>),
  the clock, the UUID generator as the sequence of ids it will hand out, the bcrypt
  functions, and the console.
\<close>

record World =
  organizations :: "Organization list"
  users :: "User list"
  tasks :: "Task list"
  auditLogs :: "AuditLog list"
  auditSaveFailure :: "error option"
  now :: Date
  uuid :: "nat \<Rightarrow> string"
  uuidCount :: nat
  bcrypt_hash :: "string \<Rightarrow> string"
  bcrypt_compare :: "string \<Rightarrow> string \<Rightarrow> bool"
  console :: "ConsoleLine list"

definition generateUuid :: "World \<Rightarrow> string \<times> World" where
  "generateUuid w = (uuid w (uuidCount w), w\<lparr>uuidCount := Suc (uuidCount w)\<rparr>)"

section \<open>Audit service\<close>

record LogEntry =
  entry_action :: string
  entry_resource :: string
  entry_resourceId :: "string option"
  entry_userId :: "string option"
  entry_userEmail :: "string option"
  entry_organizationId :: "string option"
  entry_details :: "json option"
  entry_ipAddress :: "string option"
  entry_userAgent :: "string option"
  entry_success :: "bool option"
  entry_errorMessage :: "string option"

text \<open>\<open>x || null\<close> on an optional string: the empty string is falsy as well.\<close>

definition or_null :: "string option \<Rightarrow> string option" where
  "or_null x = (case x of None \<Rightarrow> None | Some s \<Rightarrow> if s = [] then None else Some s)"

text \<open>Truthiness of an optional string (\<open>if (action)\<close>).\<close>

definition truthy :: "string option \<Rightarrow> bool" where
  "truthy x \<longleftrightarrow> or_null x \<noteq> None"

text \<open>
  \<open>AuditService.log\<close>: build the row, \<open>await save\<close>, then write the console line and
  return the saved row. There is no \<open>try\<close> around the save: when it rejects, the
  rejection is the result of \<open>log\<close> and nothing after it runs. The save fills the id
  and \<open>createdAt\<close>.
\<close>

definition AuditService_log :: "LogEntry \<Rightarrow> World \<Rightarrow> (error + AuditLog) \<times> World" where
  "AuditService_log entry w =
     (case auditSaveFailure w of
        Some e \<Rightarrow> (Inl e, w)
      | None \<Rightarrow>
          let (newId, w1) = generateUuid w;
              saved = \<lparr> auditLogId = newId,
                        action = entry_action entry,
                        resource = entry_resource entry,
                        resourceId = or_null (entry_resourceId entry),
                        audit_userId = or_null (entry_userId entry),
                        userEmail = or_null (entry_userEmail entry),
                        audit_organizationId = or_null (entry_organizationId entry),
                        details = entry_details entry,
                        ipAddress = or_null (entry_ipAddress entry),
                        userAgent = or_null (entry_userAgent entry),
                        success = (case entry_success entry of Some b \<Rightarrow> b | None \<Rightarrow> True),
                        errorMessage = or_null (entry_errorMessage entry),
                        createdAt = now w \<rparr>;
              line = AuditLine (entry_success entry \<noteq> Some False)
                       (entry_action entry) (entry_resource entry)
                       (case or_null (entry_userEmail entry) of
                          Some m \<Rightarrow> m | None \<Rightarrow> ''anonymous'')
          in (Inr saved, w1\<lparr>auditLogs := auditLogs w1 @ [saved],
                             console := console w1 @ [line]\<rparr>))"


text \<open>
  The query builder over the audit table: the \<open>WHERE\<close> conjuncts, the ordering, the
  offset and the row limit. \<open>where\<close> sets the condition, \<open>andWhere\<close> adds one.
  \<open>ORDER BY created_at DESC\<close> is a stable sort, rows with one timestamp stay in
  insertion order.
\<close>

record AuditQueryBuilder =
  qb_where :: "(AuditLog \<Rightarrow> bool) list"
  qb_orderByCreatedAtDesc :: bool
  qb_skip :: "nat option"
  qb_take :: "nat option"

definition createQueryBuilder :: AuditQueryBuilder where
  "createQueryBuilder =
     \<lparr> qb_where = [], qb_orderByCreatedAtDesc = False, qb_skip = None, qb_take = None \<rparr>"

definition where_clause :: "(AuditLog \<Rightarrow> bool) \<Rightarrow> AuditQueryBuilder \<Rightarrow> AuditQueryBuilder" where
  "where_clause c qb = qb\<lparr>qb_where := [c]\<rparr>"

definition andWhere :: "(AuditLog \<Rightarrow> bool) \<Rightarrow> AuditQueryBuilder \<Rightarrow> AuditQueryBuilder" where
  "andWhere c qb = qb\<lparr>qb_where := qb_where qb @ [c]\<rparr>"

definition orderByCreatedAtDesc :: "AuditQueryBuilder \<Rightarrow> AuditQueryBuilder" where
  "orderByCreatedAtDesc qb = qb\<lparr>qb_orderByCreatedAtDesc := True\<rparr>"

definition skip_rows :: "nat \<Rightarrow> AuditQueryBuilder \<Rightarrow> AuditQueryBuilder" where
  "skip_rows n qb = qb\<lparr>qb_skip := Some n\<rparr>"

definition take_rows :: "nat \<Rightarrow> AuditQueryBuilder \<Rightarrow> AuditQueryBuilder" where
  "take_rows n qb = qb\<lparr>qb_take := Some n\<rparr>"

definition matching :: "AuditQueryBuilder \<Rightarrow> AuditLog list \<Rightarrow> AuditLog list" where
  "matching qb rows = filter (\<lambda>a. list_all (\<lambda>c. c a) (qb_where qb)) rows"

definition getMany :: "AuditQueryBuilder \<Rightarrow> AuditLog list \<Rightarrow> AuditLog list" where
  "getMany qb rows =
     (let matched = matching qb rows;
          ordered = (if qb_orderByCreatedAtDesc qb
                     then sort_key (\<lambda>a. - createdAt a) matched else matched);
          skipped = (case qb_skip qb of None \<Rightarrow> ordered | Some n \<Rightarrow> drop n ordered)
      in case qb_take qb of None \<Rightarrow> skipped | Some n \<Rightarrow> take n skipped)"

definition getManyAndCount :: "AuditQueryBuilder \<Rightarrow> AuditLog list \<Rightarrow> AuditLog list \<times> nat" where
  "getManyAndCount qb rows = (getMany qb rows, length (matching qb rows))"

text \<open>
  \<open>AuditQueryOptions\<close>. \<open>page\<close> and \<open>limit\<close> are row counts; the offset
  \<open>(page - 1) * limit\<close> of page \<open>0\<close> is negative and reads from the first row.
\<close>

record AuditQueryOptions =
  opt_action :: "string option"
  opt_resource :: "string option"
  opt_userId :: "string option"
  startDate :: "Date option"
  endDate :: "Date option"
  page :: "nat option"
  limit :: "nat option"

text \<open>\<open>if (x) qb.andWhere(...)\<close> for an optional string \<open>x\<close>.\<close>

definition whenTruthy ::
  "string option \<Rightarrow> (string \<Rightarrow> AuditLog \<Rightarrow> bool) \<Rightarrow> AuditQueryBuilder \<Rightarrow> AuditQueryBuilder" where
  "whenTruthy x c qb = (case or_null x of Some v \<Rightarrow> andWhere (c v) qb | None \<Rightarrow> qb)"

text \<open>The same for an optional \<open>Date\<close>: a \<open>Date\<close> object is always truthy.\<close>

definition whenGiven ::
  "Date option \<Rightarrow> (Date \<Rightarrow> AuditLog \<Rightarrow> bool) \<Rightarrow> AuditQueryBuilder \<Rightarrow> AuditQueryBuilder" where
  "whenGiven x c qb = (case x of Some v \<Rightarrow> andWhere (c v) qb | None \<Rightarrow> qb)"

text \<open>
  \<open>AuditService.findAll(options, currentUser)\<close>: scope to the caller's own organization
  unless the caller is an owner, add one conjunct per filter that is present, order
  newest first, cut the page out, and return it with the count of all matching rows.
\<close>

definition AuditService_findAll_query :: "AuditQueryOptions \<Rightarrow> IUser \<Rightarrow> AuditQueryBuilder" where
  "AuditService_findAll_query options currentUser =
     (let page_n = (case page options of None \<Rightarrow> 1 | Some n \<Rightarrow> n);
          limit_n = (case limit options of None \<Rightarrow> 50 | Some n \<Rightarrow> n);
          qb0 = createQueryBuilder;
          qb1 = (if role currentUser \<noteq> OWNER
                 then where_clause
                        (\<lambda>a. audit_organizationId a = Some (organizationId currentUser)) qb0
                 else qb0);
          qb2 = whenTruthy (opt_action options) (\<lambda>v a. action a = v) qb1;
          qb3 = whenTruthy (opt_resource options) (\<lambda>v a. resource a = v) qb2;
          qb4 = whenTruthy (opt_userId options) (\<lambda>v a. audit_userId a = Some v) qb3;
          qb5 = whenGiven (startDate options) (\<lambda>d a. createdAt a \<ge> d) qb4;
          qb6 = whenGiven (endDate options) (\<lambda>d a. createdAt a \<le> d) qb5
      in take_rows limit_n (skip_rows ((page_n - 1) * limit_n) (orderByCreatedAtDesc qb6)))"

definition AuditService_findAll :: "AuditQueryOptions \<Rightarrow> IUser \<Rightarrow> World \<Rightarrow> AuditLog list \<times> nat" where
  "AuditService_findAll options currentUser w =
     getManyAndCount (AuditService_findAll_query options currentUser) (auditLogs w)"


section \<open>Organization scope\<close>

text \<open>\<open>organizationRepository.find({ where: { parentId } })\<close>, as ids.\<close>

definition childOrgIds :: "string \<Rightarrow> World \<Rightarrow> string list" where
  "childOrgIds orgId w =
     map org_organizationId (filter (\<lambda>org. parentId org = Some orgId) (organizations w))"

text \<open>
  \<open>TasksService.getAccessibleOrganizationIds\<close>: every organization for an owner;
  otherwise the caller's organization followed by its children.
\<close>

definition TasksService_getAccessibleOrganizationIds :: "IUser \<Rightarrow> World \<Rightarrow> string list" where
  "TasksService_getAccessibleOrganizationIds user w =
     (if role user = OWNER then map org_organizationId (organizations w)
      else [organizationId user] @ childOrgIds (organizationId user) w)"

text \<open>\<open>UsersService.getAccessibleOrganizationIds\<close>: own organization, then children.\<close>

definition UsersService_getAccessibleOrganizationIds :: "IUser \<Rightarrow> World \<Rightarrow> string list" where
  "UsersService_getAccessibleOrganizationIds user w =
     [organizationId user] @ childOrgIds (organizationId user) w"

text \<open>
  \<open>OrganizationsService.getAccessibleOrganizationIds\<close>: own organization; when its row
  is found, its children, and then its parent when \<open>parentId\<close> is truthy.
\<close>

definition OrganizationsService_getAccessibleOrganizationIds :: "IUser \<Rightarrow> World \<Rightarrow> string list" where
  "OrganizationsService_getAccessibleOrganizationIds user w =
     (let orgIds = [organizationId user];
          userOrg = find (\<lambda>org. org_organizationId org = organizationId user) (organizations w)
      in case userOrg of
           None \<Rightarrow> orgIds
         | Some uo \<Rightarrow>
             orgIds @ childOrgIds (organizationId user) w
             @ (case or_null (parentId uo) of Some p \<Rightarrow> [p] | None \<Rightarrow> []))"


section \<open>Tasks service\<close>

record CreateTaskDto =
  dto_title :: string
  dto_description :: "string option"
  dto_priority :: "TaskPriority option"
  dto_category :: "TaskCategory option"
  dto_dueDate :: "Date option"

text \<open>\<open>SELECT MAX(position)\<close>: \<open>NULL\<close> over no rows.\<close>

definition sql_max :: "int list \<Rightarrow> int option" where
  "sql_max xs = (case xs of [] \<Rightarrow> None | x # rest \<Rightarrow> Some (fold max rest x))"

text \<open>
  \<open>TasksService.create\<close>: next position in the caller's organization, insert the task
  (the column defaults fill status, priority and category), then \<open>await\<close> the audit
  entry and return the task. A rejected audit write leaves \<open>create\<close> rejected with the
  task already stored.
\<close>

definition TasksService_create :: "CreateTaskDto \<Rightarrow> IUser \<Rightarrow> World \<Rightarrow> (error + Task) \<times> World" where
  "TasksService_create createTaskDto user w =
     (let maxPosition = sql_max (map position
            (filter (\<lambda>t. task_organizationId t = organizationId user) (tasks w)));
          (newId, w1) = generateUuid w;
          savedTask = \<lparr> taskId = newId,
                        title = dto_title createTaskDto,
                        task_description = dto_description createTaskDto,
                        status = TODO,
                        priority = (case dto_priority createTaskDto of
                                      Some p \<Rightarrow> p | None \<Rightarrow> MEDIUM),
                        category = (case dto_category createTaskDto of
                                      Some c \<Rightarrow> c | None \<Rightarrow> WORK),
                        position = (case maxPosition of
                                      None \<Rightarrow> 0 | Some m \<Rightarrow> if m = 0 then 0 else m) + 1,
                        dueDate = dto_dueDate createTaskDto,
                        task_userId = principal_id user,
                        task_organizationId = organizationId user,
                        task_createdAt = now w,
                        task_updatedAt = now w \<rparr>;
          w2 = w1\<lparr>tasks := tasks w1 @ [savedTask]\<rparr>;
          (logged, w3) = AuditService_log
            \<lparr> entry_action = ''TASK_CREATED'',
              entry_resource = ''task'',
              entry_resourceId = Some (taskId savedTask),
              entry_userId = Some (principal_id user),
              entry_userEmail = Some (email user),
              entry_organizationId = Some (organizationId user),
              entry_details = Some (JObj [(''title'', JStr (title savedTask))]),
              entry_ipAddress = None,
              entry_userAgent = None,
              entry_success = Some True,
              entry_errorMessage = None \<rparr> w2
      in case logged of
           Inl e \<Rightarrow> (Inl e, w3)
         | Inr a \<Rightarrow> (Inr savedTask, w3))"




datatype AccessAction = Read | Update | Delete

text \<open>
  \<open>TasksService.checkTaskAccess\<close>: owners pass; a viewer passes only for a read of a
  task of their own; anyone else needs the task's organization among the accessible
  ones.
\<close>

definition TasksService_checkTaskAccess :: "Task \<Rightarrow> IUser \<Rightarrow> AccessAction \<Rightarrow> World \<Rightarrow> error + unit" where
  "TasksService_checkTaskAccess task user act w =
     (if role user = OWNER then Inr ()
      else if role user = VIEWER then
        (if task_userId task \<noteq> principal_id user
         then Inl (ForbiddenException ''You do not have access to this task'')
         else if act \<noteq> Read
         then Inl (ForbiddenException ''Viewers cannot modify tasks'')
         else Inr ())
      else
        (let accessibleOrgIds = TasksService_getAccessibleOrganizationIds user w
         in if \<not> List.member accessibleOrgIds (task_organizationId task)
            then Inl (ForbiddenException ''You do not have access to this task'')
            else Inr ()))"

text \<open>\<open>TasksService.findOne\<close>: look the task up, check access for a read, return it.\<close>

definition TasksService_findOne :: "string \<Rightarrow> IUser \<Rightarrow> World \<Rightarrow> error + Task" where
  "TasksService_findOne tid user w =
     (case find (\<lambda>t. taskId t = tid) (tasks w) of
        None \<Rightarrow> Inl (NotFoundException ''Task not found'')
      | Some task \<Rightarrow>
          (case TasksService_checkTaskAccess task user Read w of
             Inl e \<Rightarrow> Inl e
           | Inr u \<Rightarrow> Inr task))"


section \<open>Users service\<close>

text \<open>\<open>String.prototype.startsWith\<close>.\<close>

definition startsWith :: "string \<Rightarrow> string \<Rightarrow> bool" where
  "startsWith s pre \<longleftrightarrow> take (length pre) s = pre"

text \<open>
  The entity hooks of \<open>User\<close>. Before an insert a non-empty password is hashed; before
  an update it is hashed unless it already starts with the bcrypt marker.
\<close>

definition hashPasswordBeforeInsert :: "World \<Rightarrow> User \<Rightarrow> User" where
  "hashPasswordBeforeInsert w u =
     (if password u \<noteq> [] then u\<lparr>password := bcrypt_hash w (password u)\<rparr> else u)"

definition hashPasswordBeforeUpdate :: "World \<Rightarrow> User \<Rightarrow> User" where
  "hashPasswordBeforeUpdate w u =
     (if password u \<noteq> [] \<and> \<not> startsWith (password u) ''$2b$''
      then u\<lparr>password := bcrypt_hash w (password u)\<rparr> else u)"

text \<open>
  \<open>userRepository.save\<close> of a loaded row: run the update hook, stamp \<open>updatedAt\<close>, and
  write the row back under its id. No row is added and none is dropped.
\<close>

definition userRepository_save :: "User \<Rightarrow> World \<Rightarrow> User \<times> World" where
  "userRepository_save u w =
     (let stored = (hashPasswordBeforeUpdate w u)\<lparr>user_updatedAt := now w\<rparr>
      in (stored, w\<lparr>users := map (\<lambda>r. if userId r = userId u then stored else r) (users w)\<rparr>))"

text \<open>\<open>userRepository.save\<close> of a new entity: insert hook, generated id, both timestamps.\<close>

definition userRepository_insert :: "User \<Rightarrow> World \<Rightarrow> User \<times> World" where
  "userRepository_insert u w =
     (let (newId, w1) = generateUuid w;
          stored = (hashPasswordBeforeInsert w u)
                     \<lparr>userId := newId, user_createdAt := now w, user_updatedAt := now w\<rparr>
      in (stored, w1\<lparr>users := users w1 @ [stored]\<rparr>))"

definition UsersService_checkUserAccess :: "User \<Rightarrow> IUser \<Rightarrow> AccessAction \<Rightarrow> World \<Rightarrow> error + unit" where
  "UsersService_checkUserAccess targetUser currentUser act w =
     (if role currentUser = OWNER then Inr ()
      else if userId targetUser = principal_id currentUser then Inr ()
      else if role currentUser = ADMIN \<and> act = Read
              \<and> List.member (UsersService_getAccessibleOrganizationIds currentUser w)
                   (user_organizationId targetUser)
      then Inr ()
      else Inl (ForbiddenException ''You do not have access to this user''))"

record CreateUserDto =
  new_email :: string
  new_password :: string
  new_firstName :: string
  new_lastName :: string
  new_role :: Role
  new_organizationId :: string

text \<open>
  \<open>UsersService.create\<close>: refuse a taken email, refuse an owner account made by a
  non-owner, hash the password, insert, write the audit entry.
\<close>

definition UsersService_create :: "CreateUserDto \<Rightarrow> IUser \<Rightarrow> World \<Rightarrow> (error + User) \<times> World" where
  "UsersService_create createUserDto currentUser w =
     (case find (\<lambda>u. user_email u = toLowerCase (new_email createUserDto)) (users w) of
        Some existingUser \<Rightarrow> (Inl (ConflictException ''Email already registered''), w)
      | None \<Rightarrow>
          if new_role createUserDto = OWNER \<and> role currentUser \<noteq> OWNER
          then (Inl (ForbiddenException ''Only owners can create owner accounts''), w)
          else
           (let hashedPassword = bcrypt_hash w (new_password createUserDto);
                (savedUser, w1) = userRepository_insert
                  \<lparr> userId = [],
                    user_email = toLowerCase (new_email createUserDto),
                    password = hashedPassword,
                    firstName = new_firstName createUserDto,
                    lastName = new_lastName createUserDto,
                    user_role = new_role createUserDto,
                    user_organizationId = new_organizationId createUserDto,
                    isActive = True,
                    user_createdAt = now w,
                    user_updatedAt = now w \<rparr> w;
                (logged, w2) = AuditService_log
                  \<lparr> entry_action = ''USER_CREATED'',
                    entry_resource = ''user'',
                    entry_resourceId = Some (userId savedUser),
                    entry_userId = Some (principal_id currentUser),
                    entry_userEmail = Some (email currentUser),
                    entry_organizationId = Some (organizationId currentUser),
                    entry_details = Some (JObj [(''newUserEmail'', JStr (user_email savedUser)),
                                                (''role'', JStr (role_value (user_role savedUser)))]),
                    entry_ipAddress = None,
                    entry_userAgent = None,
                    entry_success = Some True,
                    entry_errorMessage = None \<rparr> w1
            in case logged of
                 Inl e \<Rightarrow> (Inl e, w2)
               | Inr a \<Rightarrow> (Inr savedUser, w2)))"

text \<open>
  \<open>UpdateUserDto\<close>, with the \<open>password\<close> the service also reads from it. A field that
  is absent leaves the row's value as it is (\<open>Object.assign\<close>).
\<close>

record UpdateUserDto =
  upd_firstName :: "string option"
  upd_lastName :: "string option"
  upd_role :: "Role option"
  upd_isActive :: "bool option"
  upd_password :: "string option"

definition assignUpdate :: "World \<Rightarrow> User \<Rightarrow> UpdateUserDto \<Rightarrow> User" where
  "assignUpdate w user dto =
     user\<lparr> firstName := (case upd_firstName dto of Some v \<Rightarrow> v | None \<Rightarrow> firstName user),
           lastName := (case upd_lastName dto of Some v \<Rightarrow> v | None \<Rightarrow> lastName user),
           user_role := (case upd_role dto of Some v \<Rightarrow> v | None \<Rightarrow> user_role user),
           isActive := (case upd_isActive dto of Some v \<Rightarrow> v | None \<Rightarrow> isActive user),
           password := (case upd_password dto of
                          Some p \<Rightarrow> if p \<noteq> [] then bcrypt_hash w p else p
                        | None \<Rightarrow> password user) \<rparr>"

definition UsersService_update :: "string \<Rightarrow> UpdateUserDto \<Rightarrow> IUser \<Rightarrow> World \<Rightarrow> (error + User) \<times> World" where
  "UsersService_update uid updateUserDto currentUser w =
     (case find (\<lambda>u. userId u = uid) (users w) of
        None \<Rightarrow> (Inl (NotFoundException ''User not found''), w)
      | Some user \<Rightarrow>
          (case UsersService_checkUserAccess user currentUser Update w of
             Inl e \<Rightarrow> (Inl e, w)
           | Inr ok \<Rightarrow>
               if (case upd_role updateUserDto of Some r \<Rightarrow> r \<noteq> user_role user | None \<Rightarrow> False)
                  \<and> role currentUser \<noteq> OWNER
               then (Inl (ForbiddenException ''Only owners can change user roles''), w)
               else
                (let (updatedUser, w1) =
                       userRepository_save (assignUpdate w user updateUserDto) w;
                     (logged, w2) = AuditService_log
                       \<lparr> entry_action = ''USER_UPDATED'',
                         entry_resource = ''user'',
                         entry_resourceId = Some (userId user),
                         entry_userId = Some (principal_id currentUser),
                         entry_userEmail = Some (email currentUser),
                         entry_organizationId = Some (organizationId currentUser),
                         entry_details = Some (JObj
                           [(''before'', JObj [(''email'', JStr (user_email user)),
                                               (''role'', JStr (role_value (user_role user)))]),
                            (''after'', JObj [(''email'', JStr (user_email updatedUser)),
                                              (''role'', JStr (role_value (user_role updatedUser)))])]),
                         entry_ipAddress = None,
                         entry_userAgent = None,
                         entry_success = Some True,
                         entry_errorMessage = None \<rparr> w1
                 in case logged of
                      Inl e \<Rightarrow> (Inl e, w2)
                    | Inr a \<Rightarrow> (Inr updatedUser, w2))))"

text \<open>
  \<open>UsersService.remove\<close>: the row must exist, the caller must be an owner; then
  \<open>isActive\<close> is cleared, the row is saved and the audit entry is written.
\<close>

definition UsersService_remove :: "string \<Rightarrow> IUser \<Rightarrow> World \<Rightarrow> (error + unit) \<times> World" where
  "UsersService_remove uid currentUser w =
     (case find (\<lambda>u. userId u = uid) (users w) of
        None \<Rightarrow> (Inl (NotFoundException ''User not found''), w)
      | Some user \<Rightarrow>
          if role currentUser \<noteq> OWNER
          then (Inl (ForbiddenException ''Only owners can delete users''), w)
          else
           (let (saved, w1) = userRepository_save (user\<lparr>isActive := False\<rparr>) w;
                (logged, w2) = AuditService_log
                  \<lparr> entry_action = ''USER_DELETED'',
                    entry_resource = ''user'',
                    entry_resourceId = Some uid,
                    entry_userId = Some (principal_id currentUser),
                    entry_userEmail = Some (email currentUser),
                    entry_organizationId = Some (organizationId currentUser),
                    entry_details = Some (JObj [(''deletedUserEmail'', JStr (user_email user))]),
                    entry_ipAddress = None,
                    entry_userAgent = None,
                    entry_success = Some True,
                    entry_errorMessage = None \<rparr> w1
            in case logged of
                 Inl e \<Rightarrow> (Inl e, w2)
               | Inr a \<Rightarrow> (Inr (), w2)))"

section \<open>Authentication service\<close>

record LoginDto =
  login_email :: string
  login_password :: string

record IJwtPayload =
  sub :: string
  payload_email :: string
  payload_role :: Role
  payload_organizationId :: string

text \<open>
  The login response. The access token is the signed payload; the signature is the JWT
  library's and the token is kept as the payload it carries.
\<close>

record ILoginResponse =
  accessToken :: IJwtPayload
  response_user :: User
  expiresIn :: nat

definition loginFailed :: "string option \<Rightarrow> string \<Rightarrow> string option \<Rightarrow> string \<Rightarrow> string \<Rightarrow> LogEntry" where
  "loginFailed uid mail org reason_text message =
     \<lparr> entry_action = ''LOGIN_FAILED'',
       entry_resource = ''auth'',
       entry_resourceId = None,
       entry_userId = uid,
       entry_userEmail = Some mail,
       entry_organizationId = org,
       entry_details = Some (JObj [(''reason'', JStr reason_text)]),
       entry_ipAddress = None,
       entry_userAgent = None,
       entry_success = Some False,
       entry_errorMessage = Some message \<rparr>"

text \<open>
  \<open>AuthService.login\<close>: unknown email, deactivated account and wrong password each
  write a \<open>LOGIN_FAILED\<close> entry and then throw; a valid login writes \<open>LOGIN\<close> and
  returns the token. Each audit write is awaited before the throw or the return.
\<close>

definition AuthService_login :: "LoginDto \<Rightarrow> World \<Rightarrow> (error + ILoginResponse) \<times> World" where
  "AuthService_login loginDto w =
     (case find (\<lambda>u. user_email u = toLowerCase (login_email loginDto)) (users w) of
        None \<Rightarrow>
          (let (logged, w1) = AuditService_log
                 (loginFailed None (login_email loginDto) None
                    ''User not found'' ''Invalid credentials'') w
           in case logged of
                Inl e \<Rightarrow> (Inl e, w1)
              | Inr a \<Rightarrow> (Inl (UnauthorizedException ''Invalid email or password''), w1))
      | Some user \<Rightarrow>
          if \<not> isActive user then
            (let (logged, w1) = AuditService_log
                   (loginFailed (Some (userId user)) (user_email user)
                      (Some (user_organizationId user))
                      ''Account deactivated'' ''Account is deactivated'') w
             in case logged of
                  Inl e \<Rightarrow> (Inl e, w1)
                | Inr a \<Rightarrow> (Inl (UnauthorizedException ''Account is deactivated''), w1))
          else if \<not> bcrypt_compare w (login_password loginDto) (password user) then
            (let (logged, w1) = AuditService_log
                   (loginFailed (Some (userId user)) (user_email user)
                      (Some (user_organizationId user))
                      ''Invalid password'' ''Invalid credentials'') w
             in case logged of
                  Inl e \<Rightarrow> (Inl e, w1)
                | Inr a \<Rightarrow> (Inl (UnauthorizedException ''Invalid email or password''), w1))
          else
            (let payload = \<lparr> sub = userId user,
                             payload_email = user_email user,
                             payload_role = user_role user,
                             payload_organizationId = user_organizationId user \<rparr>;
                 (logged, w1) = AuditService_log
                   \<lparr> entry_action = ''LOGIN'',
                     entry_resource = ''auth'',
                     entry_resourceId = None,
                     entry_userId = Some (userId user),
                     entry_userEmail = Some (user_email user),
                     entry_organizationId = Some (user_organizationId user),
                     entry_details = Some (JObj [(''method'', JStr ''password'')]),
                     entry_ipAddress = None,
                     entry_userAgent = None,
                     entry_success = Some True,
                     entry_errorMessage = None \<rparr> w
             in case logged of
                  Inl e \<Rightarrow> (Inl e, w1)
                | Inr a \<Rightarrow>
                    (Inr \<lparr> accessToken = payload, response_user = user, expiresIn = 86400 \<rparr>,
                     w1)))"


section \<open>Statements of the specification\<close>

text \<open>
  The organization invariant of the specification: ids are unique and the hierarchy has
  two levels, so the parent of any organization is a root.
\<close>

definition unique_org_ids :: "World \<Rightarrow> bool" where
  "unique_org_ids w \<longleftrightarrow> distinct (map org_organizationId (organizations w))"

definition two_level :: "World \<Rightarrow> bool" where
  "two_level w \<longleftrightarrow>
     list_all (\<lambda>child. case parentId child of
                 None \<Rightarrow> True
               | Some p \<Rightarrow> list_all (\<lambda>org. org_organizationId org \<noteq> p \<or> parentId org = None)
                             (organizations w))
       (organizations w)"

definition is_root_org :: "string \<Rightarrow> World \<Rightarrow> bool" where
  "is_root_org a w \<longleftrightarrow>
     list_ex (\<lambda>org. org_organizationId org = a \<and> parentId org = None) (organizations w)"

definition is_child_of :: "string \<Rightarrow> string \<Rightarrow> World \<Rightarrow> bool" where
  "is_child_of b a w \<longleftrightarrow>
     list_ex (\<lambda>org. org_organizationId org = b \<and> parentId org = Some a) (organizations w)"

text \<open>
  The audit query of the specification, in its words: an entry is in scope for an owner
  always and for anyone else when it carries the principal's organization; it passes
  the filter when it agrees with every parameter that is given.
\<close>

definition in_own_scope :: "IUser \<Rightarrow> AuditLog \<Rightarrow> bool" where
  "in_own_scope who a \<longleftrightarrow>
     role who = OWNER \<or> audit_organizationId a = Some (organizationId who)"

definition passes_filter :: "AuditQueryOptions \<Rightarrow> AuditLog \<Rightarrow> bool" where
  "passes_filter options a \<longleftrightarrow>
     (case or_null (opt_action options) of None \<Rightarrow> True | Some v \<Rightarrow> action a = v)
     \<and> (case or_null (opt_resource options) of None \<Rightarrow> True | Some v \<Rightarrow> resource a = v)
     \<and> (case or_null (opt_userId options) of None \<Rightarrow> True | Some v \<Rightarrow> audit_userId a = Some v)
     \<and> (case startDate options of None \<Rightarrow> True | Some d \<Rightarrow> d \<le> createdAt a)
     \<and> (case endDate options of None \<Rightarrow> True | Some d \<Rightarrow> createdAt a \<le> d)"

text \<open>The same options with every filter parameter taken away; paging stays.\<close>

definition without_filters :: "AuditQueryOptions \<Rightarrow> AuditQueryOptions" where
  "without_filters options =
     options\<lparr>opt_action := None, opt_resource := None, opt_userId := None,
             startDate := None, endDate := None\<rparr>"


text \<open>
  What the loop of \<open>reorder\<close> does to one task: the same updates, seen from a single
  row.
\<close>

fun task_after :: "string list \<Rightarrow> nat \<Rightarrow> Date \<Rightarrow> Task \<Rightarrow> Task" where
  "task_after [] i t_now t = t"
| "task_after (tid # rest) i t_now t =
     task_after rest (Suc i) t_now
       (if taskId t = tid then t\<lparr>position := int i, task_updatedAt := t_now\<rparr> else t)"

section \<open>Seed data\<close>

text \<open>
  The organizations and users of the seed script, with short ids: TechCorp is the
  parent, Engineering and Marketing are its children.
\<close>

definition techCorp :: Organization where
  "techCorp = \<lparr> org_organizationId = ''tc'', org_name = ''TechCorp'',
                org_description = Some ''Main parent organization'', parentId = None \<rparr>"

definition engineering :: Organization where
  "engineering = \<lparr> org_organizationId = ''eng'', org_name = ''Engineering Department'',
                   org_description = Some ''Software development team'', parentId = Some ''tc'' \<rparr>"

definition marketing :: Organization where
  "marketing = \<lparr> org_organizationId = ''mkt'', org_name = ''Marketing Department'',
                 org_description = Some ''Marketing and sales team'', parentId = Some ''tc'' \<rparr>"

definition seedUser :: "string \<Rightarrow> string \<Rightarrow> Role \<Rightarrow> string \<Rightarrow> User" where
  "seedUser uid mail r org =
     \<lparr> userId = uid, user_email = mail, password = ''$2b$10$h'', firstName = ''F'',
       lastName = ''L'', user_role = r, user_organizationId = org, isActive = True,
       user_createdAt = 0, user_updatedAt = 0 \<rparr>"

definition owner :: User where
  "owner = seedUser ''u1'' ''owner@techcorp.com'' OWNER ''tc''"

definition engAdmin :: User where
  "engAdmin = seedUser ''u2'' ''admin@engineering.com'' ADMIN ''eng''"

definition engViewer :: User where
  "engViewer = seedUser ''u3'' ''viewer@engineering.com'' VIEWER ''eng''"

definition mktAdmin :: User where
  "mktAdmin = seedUser ''u4'' ''admin@marketing.com'' ADMIN ''mkt''"

definition tcAdmin :: User where
  "tcAdmin = seedUser ''u5'' ''admin@techcorp.com'' ADMIN ''tc''"

definition engOwner :: User where
  "engOwner = seedUser ''u6'' ''owner@engineering.com'' OWNER ''eng''"

text \<open>The principal the JWT strategy builds for a user.\<close>

definition principalOf :: "User \<Rightarrow> IUser" where
  "principalOf u = \<lparr> principal_id = userId u, email = user_email u, role = user_role u,
                     organizationId = user_organizationId u \<rparr>"

definition seedTask :: "string \<Rightarrow> string \<Rightarrow> int \<Rightarrow> User \<Rightarrow> Task" where
  "seedTask tid ttl pos u =
     \<lparr> taskId = tid, title = ttl, task_description = None, status = TODO,
       priority = MEDIUM, category = WORK, position = pos, dueDate = None,
       task_userId = userId u, task_organizationId = user_organizationId u,
       task_createdAt = 0, task_updatedAt = 0 \<rparr>"

definition seedAudit :: "string \<Rightarrow> string \<Rightarrow> string option \<Rightarrow> bool \<Rightarrow> Date \<Rightarrow> AuditLog" where
  "seedAudit aid act org ok t =
     \<lparr> auditLogId = aid, action = act, resource = ''auth'', resourceId = None,
       audit_userId = None, userEmail = None, audit_organizationId = org, details = None,
       ipAddress = None, userAgent = None, success = ok, errorMessage = None,
       createdAt = t \<rparr>"

definition seedWorld :: World where
  "seedWorld =
     \<lparr> organizations = [techCorp, engineering, marketing],
       users = [owner, engAdmin, engViewer, mktAdmin, tcAdmin, engOwner],
       tasks = [seedTask ''t1'' ''Write unit tests'' 1 engAdmin,
                seedTask ''t2'' ''Update website content'' 1 mktAdmin,
                seedTask ''t3'' ''Quarterly business review'' 1 owner,
                seedTask ''t4'' ''Read the handbook'' 2 engViewer],
       auditLogs = [seedAudit ''a1'' ''LOGIN'' (Some ''tc'') True 10,
                    seedAudit ''a2'' ''LOGIN_FAILED'' (Some ''eng'') False 20,
                    seedAudit ''a3'' ''LOGIN_FAILED'' (Some ''mkt'') False 30,
                    seedAudit ''a4'' ''LOGIN_FAILED'' None False 40,
                    seedAudit ''a5'' ''LOGIN'' (Some ''eng'') True 50],
       auditSaveFailure = None,
       now = 100,
       uuid = (\<lambda>n. replicate (Suc n) CHR ''n''),
       uuidCount = 0,
       bcrypt_hash = (\<lambda>p. ''$2b$10$'' @ p),
       bcrypt_compare = (\<lambda>p h. h = ''$2b$10$'' @ p),
       console = [] \<rparr>"


text \<open>The seed world with an audit table that rejects every write.\<close>

definition brokenAuditWorld :: World where
  "brokenAuditWorld =
     seedWorld\<lparr>auditSaveFailure := Some (QueryFailedError ''SQLITE_BUSY: database is locked'')\<rparr>"

definition exampleTaskDto :: CreateTaskDto where
  "exampleTaskDto =
     \<lparr> dto_title = ''Build REST API endpoints'', dto_description = None,
       dto_priority = Some HIGH, dto_category = None, dto_dueDate = None \<rparr>"

text \<open>No option given, and a filter on the action alone.\<close>

definition emptyOptions :: AuditQueryOptions where
  "emptyOptions =
     \<lparr> opt_action = None, opt_resource = None, opt_userId = None,
       startDate = None, endDate = None, page = None, limit = None \<rparr>"

definition failedLoginOptions :: AuditQueryOptions where
  "failedLoginOptions = emptyOptions\<lparr>opt_action := Some ''LOGIN_FAILED''\<rparr>"

section \<open>Facts about the definitions\<close>

lemmas perm_defs = hasPermission_def ROLE_PERMISSIONS_get_def toLowerCase_def
  toLowerCase_char_def ROLE_PERMISSIONS_def Object_prototype_functions_def

lemmas seed_defs = seedWorld_def techCorp_def engineering_def marketing_def owner_def
  engAdmin_def engViewer_def mktAdmin_def tcAdmin_def engOwner_def seedUser_def
  principalOf_def seedTask_def seedAudit_def

subsection \<open>Permission table\<close>

text \<open>
  The table of section 4.1 as a predicate, to compare \<open>hasPermission\<close> with: the owner
  holds everything, the admin everything but \<open>user:delete\<close>, \<open>org:update\<close> and
  \<open>org:manage\<close>, the viewer the three read permissions.
\<close>

lemma hasPermission_table:
  assumes "toLowerCase r = role_value R"
  shows "hasPermission r p =
           Inr (case R of
                  OWNER \<Rightarrow> True
                | ADMIN \<Rightarrow> p \<notin> {USER_DELETE, ORG_UPDATE, ORG_MANAGE}
                | VIEWER \<Rightarrow> p \<in> {TASK_READ, USER_READ, ORG_READ})"
  using assms
  by (cases R; cases p;
      simp add: hasPermission_def ROLE_PERMISSIONS_get_def ROLE_PERMISSIONS_def role_value_def)

lemma hasPermission_unknown_role:
  assumes "toLowerCase r \<notin> set (map fst ROLE_PERMISSIONS)"
    and "toLowerCase r \<notin> set Object_prototype_functions"
    and "toLowerCase r \<noteq> ''__proto__''"
  shows "hasPermission r p = Inr False"
  using assms by (simp add: hasPermission_def ROLE_PERMISSIONS_get_def ROLE_PERMISSIONS_def)

text \<open>
  Claim C4. \<open>hasPermission\<close> follows the permission table for the three roles
  (\<open>hasPermission_table\<close>) and answers \<open>false\<close> for a role name that is no property of
  the table object at all (\<open>hasPermission_unknown_role\<close>). It does not answer
  \<open>false\<close> for every role outside the three: the role name \<open>constructor\<close> is found on
  the prototype chain, the value found is a function, it is truthy and has no
  \<open>includes\<close>, and the call throws a \<open>TypeError\<close>, whatever the permission asked for.
\<close>

theorem hasPermission_constructor_throws:
  "hasPermission ''constructor'' p = Inl (TypeError ''permissions.includes is not a function'')"
  by (simp add: perm_defs)

subsection \<open>Organization scope\<close>

lemma childOrgIds_iff: "c \<in> set (childOrgIds b w) \<longleftrightarrow> is_child_of c b w"
  by (auto simp: childOrgIds_def is_child_of_def list_ex_iff)

lemma unique_parent:
  assumes "unique_org_ids w" "is_child_of c a w" "is_child_of c b w"
  shows "a = b"
proof -
  from assms(2) obtain o1 where o1: "o1 \<in> set (organizations w)" "org_organizationId o1 = c" "parentId o1 = Some a"
    by (auto simp: is_child_of_def list_ex_iff)
  from assms(3) obtain o2 where o2: "o2 \<in> set (organizations w)" "org_organizationId o2 = c" "parentId o2 = Some b"
    by (auto simp: is_child_of_def list_ex_iff)
  from assms(1) have "inj_on org_organizationId (set (organizations w))"
    by (simp add: unique_org_ids_def distinct_map)
  with o1 o2 have "o1 = o2" by (auto dest: inj_onD)
  with o1 o2 show ?thesis by simp
qed

lemma child_not_root:
  assumes "unique_org_ids w" "is_child_of c a w" 
  shows "\<not> is_root_org c w"
proof
  assume "is_root_org c w"
  then obtain o1 where o1: "o1 \<in> set (organizations w)" "org_organizationId o1 = c" "parentId o1 = None"
    by (auto simp: is_root_org_def list_ex_iff)
  from assms(2) obtain o2 where o2: "o2 \<in> set (organizations w)" "org_organizationId o2 = c" "parentId o2 = Some a"
    by (auto simp: is_child_of_def list_ex_iff)
  from assms(1) have "inj_on org_organizationId (set (organizations w))"
    by (simp add: unique_org_ids_def distinct_map)
  with o1 o2 have "o1 = o2" by (auto dest: inj_onD)
  with o1 o2 show False by simp
qed

lemma two_level_no_grandchildren:
  assumes "two_level w" "is_child_of b a w"
  shows "childOrgIds b w = []"
proof -
  from assms(2) obtain o2 where o2: "o2 \<in> set (organizations w)" "org_organizationId o2 = b" "parentId o2 = Some a"
    by (auto simp: is_child_of_def list_ex_iff)
  have "parentId o1 \<noteq> Some b" if o1: "o1 \<in> set (organizations w)" for o1
  proof
    assume p: "parentId o1 = Some b"
    from assms(1) o1 p have "\<forall>org \<in> set (organizations w). org_organizationId org \<noteq> b \<or> parentId org = None"
      by (auto simp: two_level_def list_all_iff split: option.splits)
    with o2 show False by auto
  qed
  then have "filter (\<lambda>org. parentId org = Some b) (organizations w) = []"
    by (simp add: filter_empty_conv)
  then show ?thesis by (simp add: childOrgIds_def)
qed

lemma find_unique_row:
  assumes "unique_org_ids w" "is_child_of b a w"
  shows "\<exists>uo. find (\<lambda>org. org_organizationId org = b) (organizations w) = Some uo \<and> parentId uo = Some a"
proof -
  from assms(2) obtain o2 where o2: "o2 \<in> set (organizations w)" "org_organizationId o2 = b" "parentId o2 = Some a"
    by (auto simp: is_child_of_def list_ex_iff)
  then have "find (\<lambda>org. org_organizationId org = b) (organizations w) \<noteq> None"
    by (auto simp: find_None_iff)
  then obtain uo where f: "find (\<lambda>org. org_organizationId org = b) (organizations w) = Some uo" by auto
  then have uo: "uo \<in> set (organizations w)" "org_organizationId uo = b"
    by (auto simp: find_Some_iff)
  from assms(1) have "inj_on org_organizationId (set (organizations w))"
    by (simp add: unique_org_ids_def distinct_map)
  with o2 uo have "uo = o2" by (auto dest: inj_onD)
  with f o2 show ?thesis by simp
qed

text \<open>
  Claim C1, as amended. In a two-level hierarchy, for a principal whose organization
  is a child: \<open>UsersService\<close> resolves exactly the principal's own organization, and so
  does \<open>TasksService\<close> for every principal who is not an owner; neither adds the parent
  or a sibling. For an owner \<open>TasksService\<close> resolves every organization.
\<close>

theorem child_scope_is_own_org:
  assumes "two_level w" "is_child_of (organizationId user) a w"
  shows "UsersService_getAccessibleOrganizationIds user w = [organizationId user]
       \<and> (role user \<noteq> OWNER \<longrightarrow>
            TasksService_getAccessibleOrganizationIds user w = [organizationId user])
       \<and> (role user = OWNER \<longrightarrow>
            TasksService_getAccessibleOrganizationIds user w
              = map org_organizationId (organizations w))"
  using two_level_no_grandchildren[OF assms]
  by (simp add: UsersService_getAccessibleOrganizationIds_def TasksService_getAccessibleOrganizationIds_def)

text \<open>The engineering admin of the seed data is such a principal.\<close>

theorem child_scope_is_own_org_witness:
  "two_level seedWorld \<and> is_child_of (organizationId (principalOf engAdmin)) ''tc'' seedWorld
   \<and> role (principalOf engAdmin) \<noteq> OWNER
   \<and> UsersService_getAccessibleOrganizationIds (principalOf engAdmin) seedWorld = [''eng'']
   \<and> TasksService_getAccessibleOrganizationIds (principalOf engAdmin) seedWorld = [''eng'']"
proof -
  have h: "two_level seedWorld" "is_child_of (organizationId (principalOf engAdmin)) ''tc'' seedWorld"
    by (simp_all add: two_level_def is_child_of_def seed_defs)
  have o: "organizationId (principalOf engAdmin) = ''eng''" "role (principalOf engAdmin) \<noteq> OWNER"
    by (simp_all add: seed_defs)
  from child_scope_is_own_org[OF h] h o show ?thesis by simp
qed

text \<open>
  The claim as stated fails twice in the seed data, where Engineering is a child of
  TechCorp: an owner in Engineering gets every organization from \<open>TasksService\<close>, and
  the Engineering admin gets Engineering and its parent TechCorp from
  \<open>OrganizationsService\<close>.
\<close>

theorem child_scope_counterexample:
  "is_child_of ''eng'' ''tc'' seedWorld
   \<and> organizationId (principalOf engOwner) = ''eng''
   \<and> TasksService_getAccessibleOrganizationIds (principalOf engOwner) seedWorld
       = [''tc'', ''eng'', ''mkt'']
   \<and> organizationId (principalOf engAdmin) = ''eng''
   \<and> OrganizationsService_getAccessibleOrganizationIds (principalOf engAdmin) seedWorld
       = [''eng'', ''tc'']"
  by (simp add: TasksService_getAccessibleOrganizationIds_def
      OrganizationsService_getAccessibleOrganizationIds_def childOrgIds_def or_null_def
      is_child_of_def seed_defs)

text \<open>
  Claim C5, as amended. Sibling isolation: when \<open>b\<close> and \<open>c\<close> are two children of the
  root \<open>a\<close> and organization ids are unique, the scope of a principal in \<open>b\<close> does not
  contain \<open>c\<close> in \<open>UsersService\<close> and in \<open>OrganizationsService\<close>, and in
  \<open>TasksService\<close> when the principal is not an owner. The hypotheses are symmetric in
  \<open>b\<close> and \<open>c\<close>, so the same holds the other way round.
\<close>

theorem sibling_isolation:
  assumes u: "unique_org_ids w" and r: "is_root_org a w"
    and b: "is_child_of b a w" and c: "is_child_of c a w" and ne: "b \<noteq> c"
    and ub: "organizationId user = b"
  shows "c \<notin> set (UsersService_getAccessibleOrganizationIds user w)
       \<and> c \<notin> set (OrganizationsService_getAccessibleOrganizationIds user w)
       \<and> (role user \<noteq> OWNER \<longrightarrow> c \<notin> set (TasksService_getAccessibleOrganizationIds user w))"
proof -
  have ab: "a \<noteq> b" using child_not_root[OF u b] r by auto
  have ac: "c \<noteq> a" using child_not_root[OF u c] r by auto
  have nch: "c \<notin> set (childOrgIds b w)"
  proof
    assume "c \<in> set (childOrgIds b w)"
    then have "is_child_of c b w" by (simp add: childOrgIds_iff)
    from unique_parent[OF u c this] ab show False by simp
  qed
  from find_unique_row[OF u b] obtain uo where
    uo: "find (\<lambda>org. org_organizationId org = b) (organizations w) = Some uo" "parentId uo = Some a"
    by auto
  have 1: "c \<notin> set (UsersService_getAccessibleOrganizationIds user w)"
    using ne nch ub by (simp add: UsersService_getAccessibleOrganizationIds_def)
  have 2: "c \<notin> set (OrganizationsService_getAccessibleOrganizationIds user w)"
    using ne nch ub uo ac
    by (simp add: OrganizationsService_getAccessibleOrganizationIds_def or_null_def)
  have 3: "role user \<noteq> OWNER \<longrightarrow> c \<notin> set (TasksService_getAccessibleOrganizationIds user w)"
    using ne nch ub by (simp add: TasksService_getAccessibleOrganizationIds_def)
  from 1 2 3 show ?thesis by simp
qed

text \<open>Engineering and Marketing, seen by the Engineering admin.\<close>

theorem sibling_isolation_witness:
  "unique_org_ids seedWorld \<and> is_root_org ''tc'' seedWorld
   \<and> is_child_of ''eng'' ''tc'' seedWorld \<and> is_child_of ''mkt'' ''tc'' seedWorld
   \<and> ''eng'' \<noteq> ''mkt'' \<and> organizationId (principalOf engAdmin) = ''eng''
   \<and> role (principalOf engAdmin) \<noteq> OWNER
   \<and> ''mkt'' \<notin> set (UsersService_getAccessibleOrganizationIds (principalOf engAdmin) seedWorld)
   \<and> ''mkt'' \<notin> set (OrganizationsService_getAccessibleOrganizationIds (principalOf engAdmin) seedWorld)
   \<and> ''mkt'' \<notin> set (TasksService_getAccessibleOrganizationIds (principalOf engAdmin) seedWorld)"
proof -
  have h: "unique_org_ids seedWorld" "is_root_org ''tc'' seedWorld"
    "is_child_of ''eng'' ''tc'' seedWorld" "is_child_of ''mkt'' ''tc'' seedWorld"
    by (simp_all add: unique_org_ids_def is_child_of_def is_root_org_def seed_defs)
  have n: "''eng'' \<noteq> ''mkt''" by simp
  have o: "organizationId (principalOf engAdmin) = ''eng''" "role (principalOf engAdmin) \<noteq> OWNER"
    by (simp_all add: seed_defs)
  from sibling_isolation[OF h n o(1)] h n o show ?thesis by simp
qed

text \<open>
  Without the restriction to non-owners the claim fails: the scope \<open>TasksService\<close>
  resolves for an owner in Engineering contains Marketing.
\<close>

theorem sibling_isolation_counterexample:
  "is_root_org ''tc'' seedWorld
   \<and> is_child_of ''eng'' ''tc'' seedWorld \<and> is_child_of ''mkt'' ''tc'' seedWorld
   \<and> organizationId (principalOf engOwner) = ''eng''
   \<and> ''mkt'' \<in> set (TasksService_getAccessibleOrganizationIds (principalOf engOwner) seedWorld)"
  by (simp add: TasksService_getAccessibleOrganizationIds_def is_child_of_def is_root_org_def seed_defs)

subsection \<open>Task access\<close>




subsection \<open>Audit append\<close>

lemma log_fails:
  "auditSaveFailure w = Some e \<Longrightarrow> AuditService_log entry w = (Inl e, w)"
  by (simp add: AuditService_log_def)

lemma log_succeeds:
  assumes "auditSaveFailure w = None"
  shows "\<exists>a. fst (AuditService_log entry w) = Inr a
           \<and> action a = entry_action entry
           \<and> success a = (entry_success entry \<noteq> Some False)
           \<and> audit_userId a = or_null (entry_userId entry)
           \<and> userEmail a = or_null (entry_userEmail entry)
           \<and> audit_organizationId a = or_null (entry_organizationId entry)
           \<and> createdAt a = now w
           \<and> auditLogs (snd (AuditService_log entry w)) = auditLogs w @ [a]
           \<and> users (snd (AuditService_log entry w)) = users w
           \<and> tasks (snd (AuditService_log entry w)) = tasks w
           \<and> organizations (snd (AuditService_log entry w)) = organizations w"
  using assms
  by (auto simp: AuditService_log_def generateUuid_def Let_def split: option.splits)

text \<open>
  Claim C2, as amended. The audit append is awaited with no handler around it. When
  the audit table rejects the write with \<open>e\<close>, \<open>log\<close> rejects with \<open>e\<close> and leaves the
  world as it was, and \<open>TasksService.create\<close> rejects with the same \<open>e\<close> after the task
  has been stored: the task stays, no audit row is written and nothing reaches the
  console. When the table accepts the write, \<open>create\<close> returns the task and the audit
  table has one more row, \<open>TASK_CREATED\<close>.
\<close>

theorem audit_failure_propagates:
  "(auditSaveFailure w = Some e \<longrightarrow>
      AuditService_log entry w = (Inl e, w)
    \<and> fst (TasksService_create dto user w) = Inl e
    \<and> (\<exists>t. tasks (snd (TasksService_create dto user w)) = tasks w @ [t]
            \<and> title t = dto_title dto \<and> task_userId t = principal_id user
            \<and> task_organizationId t = organizationId user)
    \<and> auditLogs (snd (TasksService_create dto user w)) = auditLogs w
    \<and> console (snd (TasksService_create dto user w)) = console w)
   \<and> (auditSaveFailure w = None \<longrightarrow>
        (\<exists>t a. fst (TasksService_create dto user w) = Inr t
            \<and> tasks (snd (TasksService_create dto user w)) = tasks w @ [t]
            \<and> auditLogs (snd (TasksService_create dto user w)) = auditLogs w @ [a]
            \<and> action a = ''TASK_CREATED'' \<and> success a))"
proof (intro conjI impI)
  assume f: "auditSaveFailure w = Some e"
  show "AuditService_log entry w = (Inl e, w)" using f by (rule log_fails)
  show "fst (TasksService_create dto user w) = Inl e"
    using f by (simp add: TasksService_create_def generateUuid_def AuditService_log_def Let_def)
  show "\<exists>t. tasks (snd (TasksService_create dto user w)) = tasks w @ [t]
            \<and> title t = dto_title dto \<and> task_userId t = principal_id user
            \<and> task_organizationId t = organizationId user"
    using f by (simp add: TasksService_create_def generateUuid_def AuditService_log_def Let_def)
  show "auditLogs (snd (TasksService_create dto user w)) = auditLogs w"
    using f by (simp add: TasksService_create_def generateUuid_def AuditService_log_def Let_def)
  show "console (snd (TasksService_create dto user w)) = console w"
    using f by (simp add: TasksService_create_def generateUuid_def AuditService_log_def Let_def)
next
  assume n: "auditSaveFailure w = None"
  show "\<exists>t a. fst (TasksService_create dto user w) = Inr t
            \<and> tasks (snd (TasksService_create dto user w)) = tasks w @ [t]
            \<and> auditLogs (snd (TasksService_create dto user w)) = auditLogs w @ [a]
            \<and> action a = ''TASK_CREATED'' \<and> success a"
    using n by (simp add: TasksService_create_def generateUuid_def AuditService_log_def Let_def)
qed

text \<open>Both cases on the seed data: the audit table locked, and the audit table working.\<close>

theorem audit_failure_propagates_witness:
  "auditSaveFailure brokenAuditWorld = Some (QueryFailedError ''SQLITE_BUSY: database is locked'')
   \<and> fst (TasksService_create exampleTaskDto (principalOf engAdmin) brokenAuditWorld)
       = Inl (QueryFailedError ''SQLITE_BUSY: database is locked'')
   \<and> length (tasks (snd (TasksService_create exampleTaskDto (principalOf engAdmin) brokenAuditWorld)))
       = Suc (length (tasks brokenAuditWorld))
   \<and> auditSaveFailure seedWorld = None
   \<and> length (auditLogs (snd (TasksService_create exampleTaskDto (principalOf engAdmin) seedWorld)))
       = Suc (length (auditLogs seedWorld))"
proof -
  have b: "auditSaveFailure brokenAuditWorld = Some (QueryFailedError ''SQLITE_BUSY: database is locked'')"
    by (simp add: brokenAuditWorld_def)
  have s: "auditSaveFailure seedWorld = None" by (simp add: seedWorld_def)
  from audit_failure_propagates[of brokenAuditWorld "QueryFailedError ''SQLITE_BUSY: database is locked''"
        "loginFailed None [] None [] []" exampleTaskDto "principalOf engAdmin"] b
  have 1: "fst (TasksService_create exampleTaskDto (principalOf engAdmin) brokenAuditWorld)
       = Inl (QueryFailedError ''SQLITE_BUSY: database is locked'')"
    and 2: "length (tasks (snd (TasksService_create exampleTaskDto (principalOf engAdmin) brokenAuditWorld)))
       = Suc (length (tasks brokenAuditWorld))"
    by auto
  from audit_failure_propagates[of seedWorld "QueryFailedError []"
        "loginFailed None [] None [] []" exampleTaskDto "principalOf engAdmin"] s
  have 3: "length (auditLogs (snd (TasksService_create exampleTaskDto (principalOf engAdmin) seedWorld)))
       = Suc (length (auditLogs seedWorld))"
    by auto
  from b s 1 2 3 show ?thesis by simp
qed

text \<open>
  The claim as stated fails: with the audit table locked, the caller of \<open>create\<close>
  receives the store's error, although the new task (id \<open>n\<close>) is in the table, and the
  console shows nothing.
\<close>

theorem audit_failure_counterexample:
  "auditSaveFailure brokenAuditWorld = Some (QueryFailedError ''SQLITE_BUSY: database is locked'')
   \<and> fst (TasksService_create exampleTaskDto (principalOf engAdmin) brokenAuditWorld)
       = Inl (QueryFailedError ''SQLITE_BUSY: database is locked'')
   \<and> map taskId (tasks (snd (TasksService_create exampleTaskDto (principalOf engAdmin) brokenAuditWorld)))
       = [''t1'', ''t2'', ''t3'', ''t4'', ''n'']
   \<and> console (snd (TasksService_create exampleTaskDto (principalOf engAdmin) brokenAuditWorld)) = []"
  by (simp add: TasksService_create_def generateUuid_def AuditService_log_def Let_def
      brokenAuditWorld_def exampleTaskDto_def seed_defs)

subsection \<open>Failed logins\<close>

lemmas qb_defs = createQueryBuilder_def where_clause_def andWhere_def orderByCreatedAtDesc_def
  skip_rows_def take_rows_def matching_def getMany_def getManyAndCount_def





subsection \<open>Reorder\<close>


lemma taskId_task_after [simp]: "taskId (task_after ids i t_now t) = taskId t"
  by (induction ids arbitrary: i t) simp_all






subsection \<open>Audit query\<close>

lemma matching_createQueryBuilder: "matching createQueryBuilder rows = rows"
  by (simp add: matching_def createQueryBuilder_def)

lemma matching_where_clause: "matching (where_clause c qb) rows = filter c rows"
  by (simp add: matching_def where_clause_def)

lemma matching_andWhere: "matching (andWhere c qb) rows = filter c (matching qb rows)"
  by (simp add: matching_def andWhere_def conj_commute)

lemma matching_whenTruthy:
  "matching (whenTruthy x c qb) rows
     = filter (\<lambda>a. case or_null x of None \<Rightarrow> True | Some v \<Rightarrow> c v a) (matching qb rows)"
  by (simp add: whenTruthy_def matching_andWhere split: option.splits)

lemma matching_whenGiven:
  "matching (whenGiven x c qb) rows
     = filter (\<lambda>a. case x of None \<Rightarrow> True | Some v \<Rightarrow> c v a) (matching qb rows)"
  by (simp add: whenGiven_def matching_andWhere split: option.splits)

lemma matching_paging:
  "matching (take_rows n qb) rows = matching qb rows"
  "matching (skip_rows n qb) rows = matching qb rows"
  "matching (orderByCreatedAtDesc qb) rows = matching qb rows"
  by (simp_all add: matching_def take_rows_def skip_rows_def orderByCreatedAtDesc_def)

lemma matching_findAll:
  "matching (AuditService_findAll_query options user) rows
     = filter (\<lambda>a. in_own_scope user a \<and> passes_filter options a) rows"
proof -
  have "matching (AuditService_findAll_query options user) rows
     = filter (\<lambda>a. case endDate options of None \<Rightarrow> True | Some d \<Rightarrow> createdAt a \<le> d)
        (filter (\<lambda>a. case startDate options of None \<Rightarrow> True | Some d \<Rightarrow> d \<le> createdAt a)
          (filter (\<lambda>a. case or_null (opt_userId options) of None \<Rightarrow> True | Some v \<Rightarrow> audit_userId a = Some v)
            (filter (\<lambda>a. case or_null (opt_resource options) of None \<Rightarrow> True | Some v \<Rightarrow> resource a = v)
              (filter (\<lambda>a. case or_null (opt_action options) of None \<Rightarrow> True | Some v \<Rightarrow> action a = v)
                (filter (in_own_scope user) rows)))))"
    by (simp add: AuditService_findAll_query_def Let_def matching_paging matching_whenGiven
        matching_whenTruthy matching_where_clause matching_createQueryBuilder
        in_own_scope_def[abs_def])
  also have "\<dots> = filter (\<lambda>a. in_own_scope user a \<and> passes_filter options a) rows"
    by (simp add: passes_filter_def conj_commute conj_left_commute)
  finally show ?thesis .
qed

lemma getMany_findAll:
  "getMany (AuditService_findAll_query options user) rows
     = take (case limit options of None \<Rightarrow> 50 | Some n \<Rightarrow> n)
         (drop (((case page options of None \<Rightarrow> 1 | Some n \<Rightarrow> n) - 1)
                  * (case limit options of None \<Rightarrow> 50 | Some n \<Rightarrow> n))
            (sort_key (\<lambda>a. - createdAt a)
               (matching (AuditService_findAll_query options user) rows)))"
  by (simp add: getMany_def AuditService_findAll_query_def Let_def matching_paging
      take_rows_def skip_rows_def orderByCreatedAtDesc_def)

lemmas findAll_defs = AuditService_findAll_def AuditService_findAll_query_def whenTruthy_def
  whenGiven_def or_null_def emptyOptions_def failedLoginOptions_def

lemma findAll_characterisation:
  "set (matching (AuditService_findAll_query options user) (auditLogs w))
     = {a \<in> set (auditLogs w). in_own_scope user a \<and> passes_filter options a}
   \<and> snd (AuditService_findAll options user w)
       = length (filter (\<lambda>a. in_own_scope user a \<and> passes_filter options a) (auditLogs w))
   \<and> fst (AuditService_findAll options user w)
       = take (case limit options of None \<Rightarrow> 50 | Some n \<Rightarrow> n)
           (drop (((case page options of None \<Rightarrow> 1 | Some n \<Rightarrow> n) - 1)
                    * (case limit options of None \<Rightarrow> 50 | Some n \<Rightarrow> n))
              (sort_key (\<lambda>a. - createdAt a)
                 (filter (\<lambda>a. in_own_scope user a \<and> passes_filter options a) (auditLogs w))))
   \<and> set (fst (AuditService_findAll options user w))
       \<subseteq> {a \<in> set (auditLogs w). in_own_scope user a \<and> passes_filter options a}
   \<and> ((case page options of None \<Rightarrow> 1 | Some n \<Rightarrow> n) \<le> 1
        \<and> snd (AuditService_findAll options user w)
            \<le> (case limit options of None \<Rightarrow> 50 | Some n \<Rightarrow> n)
      \<longrightarrow> set (fst (AuditService_findAll options user w))
           = {a \<in> set (auditLogs w). in_own_scope user a \<and> passes_filter options a})"
proof -
  let ?P = "\<lambda>a. in_own_scope user a \<and> passes_filter options a"
  let ?l = "case limit options of None \<Rightarrow> 50 | Some n \<Rightarrow> n"
  let ?p = "case page options of None \<Rightarrow> 1 | Some n \<Rightarrow> n"
  have m: "matching (AuditService_findAll_query options user) (auditLogs w) = filter ?P (auditLogs w)"
    by (rule matching_findAll)
  have d: "fst (AuditService_findAll options user w)
       = take ?l (drop ((?p - 1) * ?l) (sort_key (\<lambda>a. - createdAt a) (filter ?P (auditLogs w))))"
    by (simp add: AuditService_findAll_def getManyAndCount_def getMany_findAll m)
  have t: "snd (AuditService_findAll options user w) = length (filter ?P (auditLogs w))"
    by (simp add: AuditService_findAll_def getManyAndCount_def m)
  have s: "set (fst (AuditService_findAll options user w)) \<subseteq> {a \<in> set (auditLogs w). ?P a}"
  proof
    fix a assume "a \<in> set (fst (AuditService_findAll options user w))"
    then have "a \<in> set (drop ((?p - 1) * ?l) (sort_key (\<lambda>a. - createdAt a) (filter ?P (auditLogs w))))"
      unfolding d by (rule in_set_takeD)
    then have "a \<in> set (sort_key (\<lambda>a. - createdAt a) (filter ?P (auditLogs w)))"
      by (rule in_set_dropD)
    then show "a \<in> {a \<in> set (auditLogs w). ?P a}" by simp
  qed
  have e: "set (fst (AuditService_findAll options user w)) = {a \<in> set (auditLogs w). ?P a}"
    if "?p \<le> 1 \<and> snd (AuditService_findAll options user w) \<le> ?l"
  proof -
    from that have z: "?p - 1 = 0" by simp
    from that t have "length (sort_key (\<lambda>a. - createdAt a) (filter ?P (auditLogs w))) \<le> ?l"
      by simp
    then have "fst (AuditService_findAll options user w)
        = sort_key (\<lambda>a. - createdAt a) (filter ?P (auditLogs w))"
      unfolding d z by simp
    then show ?thesis by simp
  qed
  from m d t s e show ?thesis by simp
qed




text \<open>
  Claim C8. Filter parameters are conjuncts on top of the scope condition. The rows
  a query matches, and with them the rows it returns, are among the rows the same
  query matches with every filter parameter taken away, the count never grows, and
  for a principal who is not an owner every returned entry carries the principal's
  own organization, whatever the filter. When the unfiltered rows fit the first page,
  the filtered page is a subset of the unfiltered page.
\<close>

theorem filters_only_narrow:
  "set (matching (AuditService_findAll_query options user) (auditLogs w))
     \<subseteq> set (matching (AuditService_findAll_query (without_filters options) user) (auditLogs w))
   \<and> set (fst (AuditService_findAll options user w))
       \<subseteq> set (matching (AuditService_findAll_query (without_filters options) user) (auditLogs w))
   \<and> snd (AuditService_findAll options user w)
       \<le> snd (AuditService_findAll (without_filters options) user w)
   \<and> (role user \<noteq> OWNER \<longrightarrow>
        (\<forall>a \<in> set (fst (AuditService_findAll options user w)).
           audit_organizationId a = Some (organizationId user)))
   \<and> ((case page options of None \<Rightarrow> 1 | Some n \<Rightarrow> n) \<le> 1
        \<and> snd (AuditService_findAll (without_filters options) user w)
            \<le> (case limit options of None \<Rightarrow> 50 | Some n \<Rightarrow> n)
      \<longrightarrow> set (fst (AuditService_findAll options user w))
           \<subseteq> set (fst (AuditService_findAll (without_filters options) user w)))"
proof -
  let ?o = "without_filters options"
  have pf: "passes_filter ?o a" for a
    by (simp add: passes_filter_def without_filters_def or_null_def)
  have pg: "page ?o = page options" "limit ?o = limit options"
    by (simp_all add: without_filters_def)
  note A = findAll_characterisation[of options user w]
  note B = findAll_characterisation[of ?o user w]
  have m: "set (matching (AuditService_findAll_query options user) (auditLogs w))
     \<subseteq> set (matching (AuditService_findAll_query ?o user) (auditLogs w))"
    using A B pf by auto
  have d: "set (fst (AuditService_findAll options user w))
       \<subseteq> set (matching (AuditService_findAll_query ?o user) (auditLogs w))"
    using A B pf by auto
  have eq: "filter (\<lambda>a. in_own_scope user a \<and> passes_filter options a) (auditLogs w)
      = filter (passes_filter options)
          (filter (\<lambda>a. in_own_scope user a \<and> passes_filter ?o a) (auditLogs w))"
    by (simp add: pf)
  have "length (filter (\<lambda>a. in_own_scope user a \<and> passes_filter options a) (auditLogs w))
      \<le> length (filter (\<lambda>a. in_own_scope user a \<and> passes_filter ?o a) (auditLogs w))"
    by (subst eq) (rule length_filter_le)
  then have t: "snd (AuditService_findAll options user w)
       \<le> snd (AuditService_findAll ?o user w)"
    using A B by simp
  have o: "role user \<noteq> OWNER \<longrightarrow>
        (\<forall>a \<in> set (fst (AuditService_findAll options user w)).
           audit_organizationId a = Some (organizationId user))"
    using A by (auto simp: in_own_scope_def)
  have p: "set (fst (AuditService_findAll options user w))
           \<subseteq> set (fst (AuditService_findAll ?o user w))"
    if "(case page options of None \<Rightarrow> 1 | Some n \<Rightarrow> n) \<le> 1
        \<and> snd (AuditService_findAll ?o user w)
            \<le> (case limit options of None \<Rightarrow> 50 | Some n \<Rightarrow> n)"
  proof -
    from that pg have "set (fst (AuditService_findAll ?o user w))
           = {a \<in> set (auditLogs w). in_own_scope user a \<and> passes_filter ?o a}"
      using B by simp
    moreover have "set (fst (AuditService_findAll options user w))
       \<subseteq> {a \<in> set (auditLogs w). in_own_scope user a \<and> passes_filter options a}"
      by (rule A[THEN conjunct2, THEN conjunct2, THEN conjunct2, THEN conjunct1])
    ultimately show ?thesis using pf by auto
  qed
  from m d t o p show ?thesis by simp
qed

text \<open>The Engineering admin with and without the filter on failed logins.\<close>

theorem filters_only_narrow_witness:
  "role (principalOf engAdmin) \<noteq> OWNER
   \<and> map auditLogId (fst (AuditService_findAll failedLoginOptions (principalOf engAdmin) seedWorld))
       = [''a2'']
   \<and> map auditLogId
         (fst (AuditService_findAll (without_filters failedLoginOptions) (principalOf engAdmin) seedWorld))
       = [''a5'', ''a2'']
   \<and> set (fst (AuditService_findAll failedLoginOptions (principalOf engAdmin) seedWorld))
       \<subseteq> set (fst (AuditService_findAll (without_filters failedLoginOptions)
                     (principalOf engAdmin) seedWorld))
   \<and> snd (AuditService_findAll failedLoginOptions (principalOf engAdmin) seedWorld)
       \<le> snd (AuditService_findAll (without_filters failedLoginOptions) (principalOf engAdmin) seedWorld)"
proof -
  have r: "role (principalOf engAdmin) \<noteq> OWNER" by (simp add: seed_defs)
  have e1: "map auditLogId (fst (AuditService_findAll failedLoginOptions (principalOf engAdmin) seedWorld))
       = [''a2'']"
    by (simp add: findAll_defs qb_defs seed_defs)
  have e2: "map auditLogId
         (fst (AuditService_findAll (without_filters failedLoginOptions) (principalOf engAdmin) seedWorld))
       = [''a5'', ''a2'']"
    by (simp add: findAll_defs without_filters_def qb_defs seed_defs)
  have pg: "(case page failedLoginOptions of None \<Rightarrow> 1 | Some n \<Rightarrow> n) \<le> (1::nat)"
    by (simp add: failedLoginOptions_def emptyOptions_def)
  have c: "snd (AuditService_findAll (without_filters failedLoginOptions) (principalOf engAdmin) seedWorld)
      \<le> (case limit failedLoginOptions of None \<Rightarrow> 50 | Some n \<Rightarrow> n)"
    by (simp add: findAll_defs without_filters_def qb_defs seed_defs)
  from filters_only_narrow[of failedLoginOptions "principalOf engAdmin" seedWorld] pg c
  have "set (fst (AuditService_findAll failedLoginOptions (principalOf engAdmin) seedWorld))
       \<subseteq> set (fst (AuditService_findAll (without_filters failedLoginOptions)
                     (principalOf engAdmin) seedWorld))"
    and "snd (AuditService_findAll failedLoginOptions (principalOf engAdmin) seedWorld)
       \<le> snd (AuditService_findAll (without_filters failedLoginOptions) (principalOf engAdmin) seedWorld)"
    by simp_all
  with r e1 e2 show ?thesis by simp
qed

subsection \<open>User deletion\<close>

lemma find_map_same_key:
  assumes "find P xs = Some t" and "\<forall>r \<in> set xs. P (f r) = P r"
  shows "find P (map f xs) = Some (f t)"
  using assms by (induction xs) (auto split: if_splits)

lemma find_in_set: "find P xs = Some t \<Longrightarrow> t \<in> set xs \<and> P t"
  by (induction xs) (auto split: if_splits)

lemma AuditService_log_users [simp]: "users (snd (AuditService_log entry w)) = users w"
  by (simp add: AuditService_log_def generateUuid_def Let_def split: option.splits)

lemma userRepository_save_ids:
  "map userId (users (snd (userRepository_save u w))) = map userId (users w)"
  by (simp add: userRepository_save_def Let_def hashPasswordBeforeUpdate_def comp_def)

lemma remove_keeps_rows:
  "map userId (users (snd (UsersService_remove uid currentUser w))) = map userId (users w)"
proof (cases "find (\<lambda>u. userId u = uid) (users w)")
  case None
  then show ?thesis by (simp add: UsersService_remove_def)
next
  case (Some user)
  then have id: "userId user = uid" by (auto dest: find_in_set)
  show ?thesis
  proof (cases "role currentUser = OWNER")
    case False
    with Some show ?thesis by (simp add: UsersService_remove_def)
  next
    case True
    have "users (snd (UsersService_remove uid currentUser w))
        = users (snd (userRepository_save (user\<lparr>isActive := False\<rparr>) w))"
      using Some True
      by (simp add: UsersService_remove_def Let_def case_prod_beta split: sum.splits)
    then show ?thesis by (simp add: userRepository_save_ids)
  qed
qed

lemma update_keeps_rows:
  "map userId (users (snd (UsersService_update uid dto currentUser w))) = map userId (users w)"
proof (cases "find (\<lambda>u. userId u = uid) (users w)")
  case None
  then show ?thesis by (simp add: UsersService_update_def)
next
  case (Some user)
  show ?thesis
  proof (cases "UsersService_checkUserAccess user currentUser Update w")
    case (Inl e)
    with Some show ?thesis by (simp add: UsersService_update_def)
  next
    case (Inr ok)
    have "users (snd (UsersService_update uid dto currentUser w)) = users w
          \<or> users (snd (UsersService_update uid dto currentUser w))
              = users (snd (userRepository_save (assignUpdate w user dto) w))"
      using Some Inr
      by (simp add: UsersService_update_def Let_def case_prod_beta split: sum.splits)
    then show ?thesis by (auto simp: userRepository_save_ids)
  qed
qed

lemma create_keeps_rows:
  "take (length (users w)) (users (snd (UsersService_create dto currentUser w))) = users w"
proof (cases "find (\<lambda>u. user_email u = toLowerCase (new_email dto)) (users w)")
  case (Some a)
  then show ?thesis by (simp add: UsersService_create_def)
next
  case None
  show ?thesis
  proof (cases "new_role dto = OWNER \<and> role currentUser \<noteq> OWNER")
    case True
    with None show ?thesis by (simp add: UsersService_create_def)
  next
    case False
    with None show ?thesis
      by (simp add: UsersService_create_def userRepository_insert_def generateUuid_def Let_def
          case_prod_beta split: sum.splits)
  qed
qed

text \<open>
  Claim C10. For an owner, \<open>UsersService.remove\<close> of a stored user whose password
  column holds a bcrypt hash (user ids unique, audit table working) returns normally
  and rewrites that user's row with \<open>isActive\<close> cleared and \<open>updatedAt\<close> stamped: email,
  names, role, organization and password hash are as before, and every other row is
  untouched. No operation of \<open>UsersService\<close> drops a row: \<open>remove\<close> and \<open>update\<close> keep
  the list of user ids, \<open>create\<close> keeps every stored row. A login with the
  deactivated user's email is then rejected with \<open>Account is deactivated\<close> and one
  \<open>LOGIN_FAILED\<close> entry with \<open>success = false\<close> is appended.
\<close>

theorem remove_is_soft_delete:
  assumes own: "role currentUser = OWNER"
    and found: "find (\<lambda>u. userId u = uid) (users w) = Some target"
    and uniq: "distinct (map userId (users w))"
    and hashed: "startsWith (password target) ''$2b$''"
    and up: "auditSaveFailure w = None"
    and mail: "find (\<lambda>u. user_email u = toLowerCase (login_email loginDto)) (users w) = Some target"
  shows "fst (UsersService_remove uid currentUser w) = Inr ()
    \<and> users (snd (UsersService_remove uid currentUser w))
        = map (\<lambda>r. if userId r = uid
                    then target\<lparr>isActive := False, user_updatedAt := now w\<rparr> else r) (users w)
    \<and> find (\<lambda>u. userId u = uid) (users (snd (UsersService_remove uid currentUser w)))
        = Some (target\<lparr>isActive := False, user_updatedAt := now w\<rparr>)
    \<and> map userId (users (snd (UsersService_remove uid' user' w'))) = map userId (users w')
    \<and> map userId (users (snd (UsersService_update uid' dto' user' w'))) = map userId (users w')
    \<and> take (length (users w')) (users (snd (UsersService_create new' user' w'))) = users w'
    \<and> fst (AuthService_login loginDto (snd (UsersService_remove uid currentUser w)))
        = Inl (UnauthorizedException ''Account is deactivated'')
    \<and> (\<exists>a. auditLogs (snd (AuthService_login loginDto (snd (UsersService_remove uid currentUser w))))
              = auditLogs (snd (UsersService_remove uid currentUser w)) @ [a]
            \<and> action a = ''LOGIN_FAILED'' \<and> success a = False
            \<and> audit_userId a = or_null (Some uid)
            \<and> userEmail a = or_null (Some (user_email target)))"
proof -
  let ?stored = "target\<lparr>isActive := False, user_updatedAt := now w\<rparr>"
  let ?f = "\<lambda>r. if userId r = uid then ?stored else r"
  let ?w' = "snd (UsersService_remove uid currentUser w)"
  from found have tin: "target \<in> set (users w)" and tid: "userId target = uid"
    by (auto dest: find_in_set)
  have save: "userRepository_save (target\<lparr>isActive := False\<rparr>) w
                = (?stored, w\<lparr>users := map ?f (users w)\<rparr>)"
    using hashed tid by (simp add: userRepository_save_def hashPasswordBeforeUpdate_def Let_def)
  have r1: "fst (UsersService_remove uid currentUser w) = Inr ()"
    using found own up
    by (simp add: UsersService_remove_def save AuditService_log_def generateUuid_def Let_def)
  have r2: "users ?w' = map ?f (users w)"
    using found own up
    by (simp add: UsersService_remove_def save AuditService_log_def generateUuid_def Let_def)
  have r3: "auditSaveFailure ?w' = None"
    using found own up
    by (simp add: UsersService_remove_def save AuditService_log_def generateUuid_def Let_def)
  have k1: "\<forall>r \<in> set (users w). (userId (?f r) = uid) = (userId r = uid)"
    using tid by simp
  have f1: "find (\<lambda>u. userId u = uid) (users ?w') = Some ?stored"
    unfolding r2 using find_map_same_key[OF found k1] tid by simp
  from uniq have inj: "inj_on userId (set (users w))" by (simp add: distinct_map)
  have same: "r = target" if "r \<in> set (users w)" "userId r = uid" for r
    using inj that tin tid by (auto dest: inj_onD)
  have k2: "\<forall>r \<in> set (users w).
      (user_email (?f r) = toLowerCase (login_email loginDto))
        = (user_email r = toLowerCase (login_email loginDto))"
    using same by auto
  have f2: "find (\<lambda>u. user_email u = toLowerCase (login_email loginDto)) (users ?w')
              = Some ?stored"
    unfolding r2 using find_map_same_key[OF mail k2] tid by simp
  have l1: "fst (AuthService_login loginDto ?w') = Inl (UnauthorizedException ''Account is deactivated'')"
    using f2 r3 by (simp add: AuthService_login_def AuditService_log_def generateUuid_def Let_def)
  have l2: "\<exists>a. auditLogs (snd (AuthService_login loginDto ?w')) = auditLogs ?w' @ [a]
            \<and> action a = ''LOGIN_FAILED'' \<and> success a = False
            \<and> audit_userId a = or_null (Some uid)
            \<and> userEmail a = or_null (Some (user_email target))"
    using f2 r3 tid
    by (simp add: AuthService_login_def AuditService_log_def generateUuid_def Let_def
        loginFailed_def)
  from r1 r2 f1 l1 l2 remove_keeps_rows[of uid' user' w'] update_keeps_rows[of uid' dto' user' w']
    create_keeps_rows[of w' new' user']
  show ?thesis by simp
qed

text \<open>The owner of the seed data deletes the Engineering viewer, who then tries to log in.\<close>

theorem remove_is_soft_delete_witness:
  "role (principalOf owner) = OWNER
   \<and> find (\<lambda>u. userId u = ''u3'') (users seedWorld) = Some engViewer
   \<and> distinct (map userId (users seedWorld))
   \<and> startsWith (password engViewer) ''$2b$''
   \<and> auditSaveFailure seedWorld = None
   \<and> find (\<lambda>u. user_email u
                = toLowerCase (login_email \<lparr>login_email = ''Viewer@Engineering.com'',
                                              login_password = ''Viewer123!''\<rparr>))
        (users seedWorld) = Some engViewer
   \<and> fst (UsersService_remove ''u3'' (principalOf owner) seedWorld) = Inr ()
   \<and> find (\<lambda>u. userId u = ''u3'')
        (users (snd (UsersService_remove ''u3'' (principalOf owner) seedWorld)))
       = Some (engViewer\<lparr>isActive := False, user_updatedAt := 100\<rparr>)
   \<and> fst (AuthService_login
            \<lparr>login_email = ''Viewer@Engineering.com'', login_password = ''Viewer123!''\<rparr>
            (snd (UsersService_remove ''u3'' (principalOf owner) seedWorld)))
       = Inl (UnauthorizedException ''Account is deactivated'')"
proof -
  let ?dto = "\<lparr>login_email = ''Viewer@Engineering.com'', login_password = ''Viewer123!''\<rparr>"
  have own: "role (principalOf owner) = OWNER" by (simp add: seed_defs)
  have found: "find (\<lambda>u. userId u = ''u3'') (users seedWorld) = Some engViewer"
    by (simp add: seed_defs)
  have uniq: "distinct (map userId (users seedWorld))" by (simp add: seed_defs)
  have hashed: "startsWith (password engViewer) ''$2b$''"
    by (simp add: startsWith_def seed_defs)
  have up: "auditSaveFailure seedWorld = None" by (simp add: seedWorld_def)
  have mail: "find (\<lambda>u. user_email u = toLowerCase (login_email ?dto)) (users seedWorld)
                = Some engViewer"
    by (simp add: toLowerCase_def toLowerCase_char_def seed_defs)
  have n: "now seedWorld = 100" by (simp add: seedWorld_def)
  note T = remove_is_soft_delete[OF own found uniq hashed up mail]
  have 1: "fst (UsersService_remove ''u3'' (principalOf owner) seedWorld) = Inr ()"
    by (rule T[THEN conjunct1])
  have 2: "find (\<lambda>u. userId u = ''u3'')
        (users (snd (UsersService_remove ''u3'' (principalOf owner) seedWorld)))
       = Some (engViewer\<lparr>isActive := False, user_updatedAt := 100\<rparr>)"
    using T[THEN conjunct2, THEN conjunct2, THEN conjunct1] by (simp only: n)
  have 3: "fst (AuthService_login ?dto (snd (UsersService_remove ''u3'' (principalOf owner) seedWorld)))
       = Inl (UnauthorizedException ''Account is deactivated'')"
    by (rule T[THEN conjunct2, THEN conjunct2, THEN conjunct2, THEN conjunct2,
          THEN conjunct2, THEN conjunct2, THEN conjunct1])
  from own found uniq hashed up mail 1 2 3 show ?thesis
    by - (intro conjI; assumption)
qed

end
